theory Spec2Isabelle
  imports Complex_Main
begin

section \<open>Data model (models.py)\<close>

text \<open>
  Python integers are modelled as \<open>int\<close>, primary keys as \<open>nat\<close>, timestamps
  (\<open>timezone.now()\<close>) as \<open>nat\<close>, nullable columns as \<open>option\<close>. The uploaded
  document is a name together with its bytes; \<open>course_file.size\<close> is the number of bytes.
\<close>

type_synonym timestamp = nat

record doc_file =
  f_name :: string
  f_bytes :: string

record course =
  pk :: "nat option"
  title :: string
  slug :: string
  course_file :: "doc_file option"
  file_size :: int
  file_type :: string
  total_pages :: int
  is_public :: bool
  published_at :: "timestamp option"
  total_lessons :: int
  total_enrollments :: int
  average_rating :: rat

record lesson =
  l_id :: nat
  l_course :: nat
  l_title :: string
  l_slug :: string
  l_page_number :: int
  l_order :: int

record enrollment =
  e_id :: nat
  e_user :: nat
  e_course :: nat
  enrolled_at :: timestamp
  completed_at :: "timestamp option"
  current_page :: int
  current_lesson :: "nat option"
  pages_completed :: int
  total_pages_viewed :: int
  bookmarked_pages :: "int list"
  e_notes :: "(string \<times> string) list"

record progress_log =
  pl_enrollment :: nat
  pl_page_number :: int
  pl_action :: string
  pl_time_spent :: int
  pl_metadata :: string

record rating =
  r_id :: nat
  r_user :: nat
  r_course :: nat
  r_rating :: int

text \<open>The relational store: one list of rows per table.\<close>

record db =
  courses :: "course list"
  lessons :: "lesson list"
  enrollments :: "enrollment list"
  logs :: "progress_log list"
  ratings :: "rating list"

section \<open>Aggregate counter sync (signals.py)\<close>

text \<open>
  \<open>Course.objects.filter(id=cid).update(...)\<close>: a targeted update of the rows with that
  primary key. The receivers' guard \<open>if instance.course\<close> holds for every stored child
  row (the foreign key is not nullable) and is left out.
\<close>

definition update_course_rows :: "nat \<Rightarrow> (course \<Rightarrow> course) \<Rightarrow> db \<Rightarrow> db" where
  "update_course_rows cid f d =
     d\<lparr>courses := map (\<lambda>c. if pk c = Some cid then f c else c) (courses d)\<rparr>"

text \<open>\<open>update_course_lesson_count\<close>, the \<open>post_save\<close> receiver of \<open>Lesson\<close>.\<close>

definition update_course_lesson_count :: "db \<Rightarrow> lesson \<Rightarrow> bool \<Rightarrow> db" where
  "update_course_lesson_count d inst created =
     (let total = int (length (filter (\<lambda>l. l_course l = l_course inst) (lessons d)))
      in update_course_rows (l_course inst) (\<lambda>c. c\<lparr>total_lessons := total\<rparr>) d)"

text \<open>
  \<open>Avg('rating')\<close> over a queryset is \<open>None\<close> on no rows; the mean is kept exact
  (a rational) in place of the float the database returns.
\<close>

definition Avg :: "int list \<Rightarrow> rat option" where
  "Avg xs = (if xs = [] then None else Some (of_int (sum_list xs) / of_int (int (length xs))))"

text \<open>
  \<open>update_course_average_rating\<close>, the receiver of both \<open>post_save\<close> and
  \<open>post_delete\<close> of \<open>CourseRating\<close>. \<open>avg or 0.0\<close> is \<open>0.0\<close> for \<open>None\<close> and for a zero mean.
\<close>

definition update_course_average_rating :: "db \<Rightarrow> rating \<Rightarrow> db" where
  "update_course_average_rating d inst =
     (let avg_rating =
            (case Avg (map r_rating (filter (\<lambda>r. r_course r = r_course inst) (ratings d))) of
               None \<Rightarrow> 0
             | Some a \<Rightarrow> if a = 0 then 0 else a)
      in update_course_rows (r_course inst) (\<lambda>c. c\<lparr>average_rating := avg_rating\<rparr>) d)"

text \<open>\<open>update_course_enrollment_count\<close>, the \<open>post_save\<close> receiver of \<open>CourseEnrollment\<close>.\<close>

definition update_course_enrollment_count :: "db \<Rightarrow> enrollment \<Rightarrow> bool \<Rightarrow> db" where
  "update_course_enrollment_count d inst created =
     (if created then
        (let total = int (length (filter (\<lambda>e. e_course e = e_course inst) (enrollments d)))
         in update_course_rows (e_course inst) (\<lambda>c. c\<lparr>total_enrollments := total\<rparr>) d)
      else d)"

section \<open>Enrollment progress tracker (models.py, CourseEnrollment)\<close>

text \<open>
  \<open>Model.save()\<close> of an enrollment: update the row with this primary key, insert it when
  there is none, then send \<open>post_save\<close>. With \<open>update_fields=['total_pages_viewed']\<close>
  only that column of the row is written. (\<open>last_accessed\<close> is not modelled.)
\<close>

definition enrollment_save :: "db \<Rightarrow> enrollment \<Rightarrow> db" where
  "enrollment_save d e =
     (if list_ex (\<lambda>r. e_id r = e_id e) (enrollments d)
      then update_course_enrollment_count
             (d\<lparr>enrollments := map (\<lambda>r. if e_id r = e_id e then e else r) (enrollments d)\<rparr>) e False
      else update_course_enrollment_count (d\<lparr>enrollments := enrollments d @ [e]\<rparr>) e True)"

definition enrollment_save_total_pages_viewed :: "db \<Rightarrow> enrollment \<Rightarrow> db" where
  "enrollment_save_total_pages_viewed d e =
     update_course_enrollment_count
       (d\<lparr>enrollments :=
            map (\<lambda>r. if e_id r = e_id e then r\<lparr>total_pages_viewed := total_pages_viewed e\<rparr> else r)
              (enrollments d)\<rparr>) e False"

text \<open>
  The lesson lookup of \<open>update_progress\<close>: \<open>Lesson.objects.get(course, page_number)\<close>, and on
  \<open>DoesNotExist\<close> the first row of
  \<open>filter(course, page_number__lte=page_number).order_by('-page_number')\<close>.
  (\<open>course, page_number\<close> is unique together, so \<open>get\<close> finds at most one row.)
\<close>

fun first_by_page_desc :: "lesson list \<Rightarrow> lesson option" where
  "first_by_page_desc [] = None"
| "first_by_page_desc (l # ls) =
     (case first_by_page_desc ls of
        None \<Rightarrow> Some l
      | Some m \<Rightarrow> if l_page_number m > l_page_number l then Some m else Some l)"

definition lookup_current_lesson :: "db \<Rightarrow> nat \<Rightarrow> int \<Rightarrow> nat option" where
  "lookup_current_lesson d cid page_number =
     (case filter (\<lambda>l. l_course l = cid \<and> l_page_number l = page_number) (lessons d) of
        l # _ \<Rightarrow> Some (l_id l)
      | [] \<Rightarrow>
         map_option l_id
           (first_by_page_desc
              (filter (\<lambda>l. l_course l = cid \<and> l_page_number l \<le> page_number) (lessons d))))"

text \<open>
  \<open>CourseEnrollment.update_progress(self, page_number, time_spent)\<close>. \<open>crs\<close> is the related
  object \<open>self.course\<close>, \<open>now\<close> the value of \<open>timezone.now()\<close>. The result is the mutated
  \<open>self\<close> and the store.
\<close>

definition update_progress ::
  "db \<Rightarrow> course \<Rightarrow> enrollment \<Rightarrow> int \<Rightarrow> int \<Rightarrow> timestamp \<Rightarrow> enrollment \<times> db" where
  "update_progress d crs self page_number time_spent now =
     (let self1 = self\<lparr>current_page := page_number\<rparr>;
          self2 = (if page_number > pages_completed self1
                   then self1\<lparr>pages_completed := page_number\<rparr> else self1);
          self3 = self2\<lparr>current_lesson := lookup_current_lesson d (e_course self2) page_number\<rparr>;
          self4 = (if page_number \<ge> total_pages crs \<and> completed_at self3 = None
                   then self3\<lparr>completed_at := Some now\<rparr> else self3);
          d1 = enrollment_save d self4;
          d2 = d1\<lparr>logs := logs d1 @
                 [\<lparr>pl_enrollment = e_id self4, pl_page_number = page_number,
                   pl_action = ''page_view'', pl_time_spent = time_spent,
                   pl_metadata = ''{}''\<rparr>]\<rparr>;
          self5 = self4\<lparr>total_pages_viewed := total_pages_viewed self4 + 1\<rparr>;
          d3 = enrollment_save_total_pages_viewed d2 self5
      in (self5, d3))"

text \<open>A sequence of \<open>update_progress\<close> calls on the same enrollment object.\<close>

fun run_updates ::
  "db \<Rightarrow> course \<Rightarrow> enrollment \<Rightarrow> (int \<times> int \<times> timestamp) list \<Rightarrow> enrollment \<times> db" where
  "run_updates d crs self [] = (self, d)"
| "run_updates d crs self ((page_number, time_spent, now) # calls) =
     (case update_progress d crs self page_number time_spent now of
        (self', d') \<Rightarrow> run_updates d' crs self' calls)"

section \<open>API surface (serializers.py, views.py)\<close>

text \<open>
  The body of an update-progress request: each key may be absent. \<open>metadata\<close> is opaque
  JSON text. The validated data carry the serializer's defaults.
\<close>

record progress_request =
  rq_page_number :: "int option"
  rq_time_spent :: "int option"
  rq_action :: "string option"
  rq_metadata :: "string option"

record validated_data =
  v_page_number :: int
  v_time_spent :: int
  v_action :: string
  v_metadata :: string

text \<open>
  \<open>ProgressUpdateSerializer.validate\<close>. Its argument \<open>view_get_course\<close> stands for
  \<open>view and hasattr(view, 'get_course')\<close> together with the result of \<open>view.get_course()\<close>:
  \<open>None\<close> when the context has no view or the view has no such attribute.
\<close>

definition validate :: "course option \<Rightarrow> validated_data \<Rightarrow> string + validated_data" where
  "validate view_get_course data =
     (case view_get_course of
        Some crs \<Rightarrow>
          if v_page_number data > total_pages crs then Inl ''page_number'' else Inr data
      | None \<Rightarrow> Inr data)"

text \<open>
  \<open>serializer.is_valid()\<close>: the declared fields (\<open>page_number\<close> required with
  \<open>min_value=1\<close>; \<open>time_spent\<close> with \<open>min_value=0\<close>, default 0; \<open>action\<close> a non-blank
  string of at most 50 characters, default \<open>'page_view'\<close>; \<open>metadata\<close> default \<open>{}\<close>),
  then \<open>validate\<close>. \<open>Inl\<close> names the field in error.
\<close>

definition is_valid :: "course option \<Rightarrow> progress_request \<Rightarrow> string + validated_data" where
  "is_valid view_get_course rq =
     (case rq_page_number rq of
        None \<Rightarrow> Inl ''page_number''
      | Some page_number \<Rightarrow>
          if page_number < 1 then Inl ''page_number''
          else
            (let time_spent = (case rq_time_spent rq of None \<Rightarrow> 0 | Some t \<Rightarrow> t);
                 action = (case rq_action rq of None \<Rightarrow> ''page_view'' | Some a \<Rightarrow> a);
                 metadata = (case rq_metadata rq of None \<Rightarrow> ''{}'' | Some m \<Rightarrow> m)
             in if time_spent < 0 then Inl ''time_spent''
                else if action = [] \<or> length action > 50 then Inl ''action''
                else validate view_get_course
                       \<lparr>v_page_number = page_number, v_time_spent = time_spent,
                        v_action = action, v_metadata = metadata\<rparr>))"

text \<open>
  \<open>CourseEnrollmentViewSet\<close> defines \<open>get_queryset\<close>, \<open>reset_progress\<close>, \<open>unenroll\<close>,
  \<open>update_progress\<close>, \<open>bookmark\<close> and \<open>add_note\<close>, and inherits the rest from
  \<open>ModelViewSet\<close>: it has no attribute \<open>get_course\<close>.
\<close>

definition CourseEnrollmentViewSet_get_course :: "course option" where
  "CourseEnrollmentViewSet_get_course = None"

text \<open>
  \<open>self.get_object()\<close> over \<open>get_queryset\<close>: the requesting user's enrollment with that
  primary key, joined with its course (\<open>select_related\<close>); \<open>None\<close> is the 404.
\<close>

definition get_object :: "db \<Rightarrow> nat \<Rightarrow> nat \<Rightarrow> (enrollment \<times> course) option" where
  "get_object d user key =
     (case filter (\<lambda>e. e_user e = user \<and> e_id e = key) (enrollments d) of
        [] \<Rightarrow> None
      | e # _ \<Rightarrow>
          (case filter (\<lambda>c. pk c = Some (e_course e)) (courses d) of
             [] \<Rightarrow> None
           | c # _ \<Rightarrow> Some (e, c)))"

record response =
  status :: nat
  data :: "enrollment option"

text \<open>The \<open>update_progress\<close> action of \<open>CourseEnrollmentViewSet\<close>.\<close>

definition view_update_progress ::
  "db \<Rightarrow> nat \<Rightarrow> nat \<Rightarrow> progress_request \<Rightarrow> timestamp \<Rightarrow> response \<times> db" where
  "view_update_progress d user key rq now =
     (case get_object d user key of
        None \<Rightarrow> (\<lparr>status = 404, data = None\<rparr>, d)
      | Some (enrollment, crs) \<Rightarrow>
          (case is_valid CourseEnrollmentViewSet_get_course rq of
             Inl err \<Rightarrow> (\<lparr>status = 400, data = None\<rparr>, d)
           | Inr v \<Rightarrow>
               (case update_progress d crs enrollment (v_page_number v) (v_time_spent v) now of
                  (enrollment', d1) \<Rightarrow>
                    (\<lparr>status = 200, data = Some enrollment'\<rparr>,
                     d1\<lparr>logs := logs d1 @
                        [\<lparr>pl_enrollment = e_id enrollment', pl_page_number = v_page_number v,
                          pl_action = v_action v, pl_time_spent = v_time_spent v,
                          pl_metadata = v_metadata v\<rparr>]\<rparr>))))"



text \<open>
  The \<open>time_spent\<close> property of an enrollment: \<open>Sum('time_spent')\<close> over its log rows
  (\<open>None\<close> on no rows), \<open>or 0\<close>.
\<close>

definition Sum :: "int list \<Rightarrow> int option" where
  "Sum xs = (if xs = [] then None else Some (sum_list xs))"

definition time_spent :: "db \<Rightarrow> enrollment \<Rightarrow> int" where
  "time_spent d self =
     (case Sum (map pl_time_spent (filter (\<lambda>l. pl_enrollment l = e_id self) (logs d))) of
        None \<Rightarrow> 0
      | Some total_time \<Rightarrow> if total_time = 0 then 0 else total_time)"

text \<open>
  The total of the dashboard's \<open>stats\<close> action: \<open>Sum('time_spent')\<close> over the log rows
  whose enrollment belongs to the requesting user (\<open>enrollment__user=request.user\<close>),
  \<open>or 0\<close>.
\<close>

definition stats_total_time_spent :: "db \<Rightarrow> nat \<Rightarrow> int" where
  "stats_total_time_spent d user =
     (case Sum (map pl_time_spent
                 (filter (\<lambda>l. list_ex (\<lambda>e. e_id e = pl_enrollment l \<and> e_user e = user)
                                 (enrollments d)) (logs d))) of
        None \<Rightarrow> 0
      | Some total_time \<Rightarrow> if total_time = 0 then 0 else total_time)"

section \<open>Document ingestion and the course registry (models.py, Course)\<close>

text \<open>
  The libraries the ingestion calls: \<open>slugify\<close> on a title, and, as functions of a
  document's bytes, \<open>len(PyPDF2.PdfReader(f).pages)\<close>, \<open>len(Document(f).paragraphs)\<close> and
  the bytes \<open>pdfkit.from_string\<close> renders from the HTML of \<open>Document(f)\<close>. \<open>None\<close> means
  that the call raises.
\<close>

record libs =
  slugify :: "string \<Rightarrow> string"
  pdf_page_count :: "string \<Rightarrow> int option"
  docx_paragraph_count :: "string \<Rightarrow> int option"
  docx_pdf_bytes :: "string \<Rightarrow> string option"

datatype error =
  ValueError | DatabaseError | MultipleObjectsReturned | ConversionError | AttributeError

subsection \<open>Strings\<close>

text \<open>\<open>str.lower()\<close> on ASCII text.\<close>

definition lower_char :: "char \<Rightarrow> char" where
  "lower_char c =
     (case map_of (zip ''ABCDEFGHIJKLMNOPQRSTUVWXYZ'' ''abcdefghijklmnopqrstuvwxyz'') c of
        Some l \<Rightarrow> l
      | None \<Rightarrow> c)"

definition lower :: "string \<Rightarrow> string" where
  "lower s = map lower_char s"

definition endswith :: "string \<Rightarrow> string \<Rightarrow> bool" where
  "endswith s suffix =
     (length suffix \<le> length s \<and> drop (length s - length suffix) s = suffix)"

text \<open>\<open>str.rfind(c)\<close>: the highest index of \<open>c\<close>, or -1.\<close>

fun rfind :: "string \<Rightarrow> char \<Rightarrow> int" where
  "rfind [] c = -1"
| "rfind (x # xs) c =
     (let r = rfind xs c in if r \<ge> 0 then r + 1 else if x = c then 0 else -1)"

text \<open>
  \<open>os.path.splitext\<close> (the POSIX flavour: separator \<open>/\<close>): the extension starts at the
  last dot of the last path component, unless that component has only dots before it
  (the loop over \<open>p[sepIndex+1:dotIndex]\<close> looks for a character that is not a dot).
\<close>

definition splitext :: "string \<Rightarrow> string \<times> string" where
  "splitext p =
     (let sepIndex = rfind p CHR ''/'';
          dotIndex = rfind p CHR ''.''
      in if dotIndex > sepIndex \<and>
            list_ex (\<lambda>c. c \<noteq> CHR ''.'')
              (take (nat dotIndex - nat (sepIndex + 1)) (drop (nat (sepIndex + 1)) p))
         then (take (nat dotIndex) p, drop (nat dotIndex) p)
         else (p, []))"

text \<open>\<open>str(n)\<close> for a natural number, as the f-string of the slug loop formats it.\<close>

definition digit_char :: "nat \<Rightarrow> char" where
  "digit_char n = ''0123456789'' ! n"

function str_nat :: "nat \<Rightarrow> string" where
  "str_nat n = (if n < 10 then [digit_char n] else str_nat (n div 10) @ [digit_char (n mod 10)])"
  by pat_completeness auto

termination str_nat
  by (relation "measure id") auto

declare str_nat.simps [simp del]

subsection \<open>Slug generation\<close>

text \<open>
  The loop \<open>while Course.objects.filter(slug=self.slug).exists()\<close>: \<open>taken\<close> are the slugs
  of the stored courses, \<open>s\<close> is \<open>self.slug\<close>.
\<close>

definition slug_candidate :: "string \<Rightarrow> nat \<Rightarrow> string" where
  "slug_candidate original_slug counter = original_slug @ ''-'' @ str_nat counter"

function slug_loop :: "string list \<Rightarrow> string \<Rightarrow> string \<Rightarrow> nat \<Rightarrow> string" where
  "slug_loop taken original_slug s counter =
     (if s \<in> set taken
      then slug_loop taken original_slug (slug_candidate original_slug counter) (Suc counter)
      else s)"
  by pat_completeness auto

termination slug_loop
proof (relation "measure (\<lambda>(taken, original_slug, s, counter).
      2 * length (filter (\<lambda>x. \<exists>j \<ge> counter. x = slug_candidate original_slug j) (remdups taken))
        + (if s \<in> set taken then 1 else 0))")
  show "wf (measure (\<lambda>(taken, original_slug, s, counter).
      2 * length (filter (\<lambda>x. \<exists>j \<ge> counter. x = slug_candidate original_slug j) (remdups taken))
        + (if s \<in> set taken then 1 else 0)))" by simp
next
  fix taken :: "string list" and original_slug s :: string and counter :: nat
  assume s: "s \<in> set taken"
  have digit: "a = b" if "a < 10" "b < 10" "digit_char a = digit_char b" for a b
    using that unfolding digit_char_def by (subst (asm) nth_eq_iff_index_eq) simp_all
  have len: "length (str_nat n) \<ge> 1" for n
    by (subst str_nat.simps) simp
  have inj: "m = n" if "str_nat m = str_nat n" for m n
    using that
  proof (induction m arbitrary: n rule: str_nat.induct)
    case (1 m)
    show ?case
    proof (cases "m < 10")
      case True
      note m = this
      show ?thesis
      proof (cases "n < 10")
        case True
        then show ?thesis using "1.prems" m
          by (simp add: str_nat.simps [of m] str_nat.simps [of n] digit)
      next
        case False
        have "length (str_nat n) \<ge> 2"
          using False len [of "n div 10"] by (simp add: str_nat.simps [of n])
        moreover have "length (str_nat m) = 1" using m by (simp add: str_nat.simps [of m])
        ultimately show ?thesis using "1.prems" by simp
      qed
    next
      case False
      note m = this
      show ?thesis
      proof (cases "n < 10")
        case True
        have "length (str_nat m) \<ge> 2"
          using m len [of "m div 10"] by (simp add: str_nat.simps [of m])
        moreover have "length (str_nat n) = 1" using True by (simp add: str_nat.simps [of n])
        ultimately show ?thesis using "1.prems" by simp
      next
        case False
        have "str_nat (m div 10) @ [digit_char (m mod 10)] =
              str_nat (n div 10) @ [digit_char (n mod 10)]"
          using "1.prems" m False by (simp add: str_nat.simps [of m] str_nat.simps [of n])
        then have "str_nat (m div 10) = str_nat (n div 10)"
          and d: "digit_char (m mod 10) = digit_char (n mod 10)" by simp_all
        then have "m div 10 = n div 10" using "1.IH" m by simp
        moreover have "m mod 10 = n mod 10" using d by (intro digit) simp_all
        ultimately show ?thesis by (metis div_mult_mod_eq)
      qed
    qed
  qed
  have cand_inj: "i = j"
    if "slug_candidate original_slug i = slug_candidate original_slug j" for i j
    using that by (simp add: slug_candidate_def inj)
  let ?P = "\<lambda>c x. \<exists>j \<ge> c. x = slug_candidate original_slug j"
  let ?c = "slug_candidate original_slug counter"
  have sub: "filter (?P (Suc counter)) (remdups taken) =
             filter (?P (Suc counter)) (filter (?P counter) (remdups taken))"
    by (auto intro!: filter_cong simp: Suc_le_eq dest: less_imp_le)
  have le: "length (filter (?P (Suc counter)) (remdups taken))
            \<le> length (filter (?P counter) (remdups taken))"
    by (subst sub) (rule length_filter_le)
  have lt: "length (filter (?P (Suc counter)) (remdups taken))
            < length (filter (?P counter) (remdups taken))" if c: "?c \<in> set taken"
  proof -
    have "?c \<in> set (filter (?P counter) (remdups taken))" using c by auto
    moreover have "\<not> ?P (Suc counter) ?c"
      using cand_inj [of counter] by force
    ultimately show ?thesis by (subst sub) (rule length_filter_less)
  qed
  show "((taken, original_slug, ?c, Suc counter), (taken, original_slug, s, counter))
        \<in> measure (\<lambda>(taken, original_slug, s, counter).
      2 * length (filter (\<lambda>x. \<exists>j \<ge> counter. x = slug_candidate original_slug j) (remdups taken))
        + (if s \<in> set taken then 1 else 0))"
    using s le lt by (cases "?c \<in> set taken") auto
qed

declare slug_loop.simps [simp del]

definition generate_slug :: "libs \<Rightarrow> db \<Rightarrow> course \<Rightarrow> course" where
  "generate_slug L d self =
     (if slug self = [] then
        (let original_slug = slugify L (title self)
         in self\<lparr>slug := slug_loop (map slug (courses d)) original_slug original_slug 1\<rparr>)
      else self)"

subsection \<open>Page counting and conversion\<close>

text \<open>
  \<open>self.course_file and hasattr(self.course_file, 'size')\<close>: a file field is true when it
  has a name.
\<close>

definition uploaded_file :: "course \<Rightarrow> doc_file option" where
  "uploaded_file self =
     (case course_file self of
        None \<Rightarrow> None
      | Some f \<Rightarrow> if f_name f = [] then None else Some f)"

text \<open>\<open>get_pdf_page_count\<close> and \<open>get_docx_page_count\<close>: any exception gives 0.\<close>

definition get_pdf_page_count :: "libs \<Rightarrow> course \<Rightarrow> int" where
  "get_pdf_page_count L self =
     (case course_file self of
        None \<Rightarrow> 0
      | Some f \<Rightarrow> (case pdf_page_count L (f_bytes f) of None \<Rightarrow> 0 | Some n \<Rightarrow> n))"

definition get_docx_page_count :: "libs \<Rightarrow> course \<Rightarrow> int" where
  "get_docx_page_count L self =
     (case course_file self of
        None \<Rightarrow> 0
      | Some f \<Rightarrow>
          (case docx_paragraph_count L (f_bytes f) of
             None \<Rightarrow> 0
           | Some total_paragraphs \<Rightarrow> max 1 (total_paragraphs div 10)))"

text \<open>
  \<open>convert_docx_to_pdf\<close>: \<open>None\<close> when it raises; otherwise \<open>self\<close> with the generated PDF
  as \<open>course_file\<close> (named after the original, extension \<open>.pdf\<close>) and its length as
  \<open>file_size\<close>.
\<close>

definition convert_docx_to_pdf :: "libs \<Rightarrow> course \<Rightarrow> doc_file \<Rightarrow> course option" where
  "convert_docx_to_pdf L self docx_file =
     (case docx_pdf_bytes L (f_bytes docx_file) of
        None \<Rightarrow> None
      | Some pdf_bytes \<Rightarrow>
          Some (self\<lparr>course_file :=
                        Some \<lparr>f_name = fst (splitext (f_name docx_file)) @ ''.pdf'',
                              f_bytes = pdf_bytes\<rparr>,
                      file_size := int (length pdf_bytes)\<rparr>))"

subsection \<open>Saving a course\<close>

text \<open>
  \<open>super().save(**kwargs)\<close>, Django's \<open>Model.save\<close>, with \<open>update_fields\<close> the only keyword
  argument modelled. Without \<open>update_fields\<close> the whole row is written (inserted when the
  instance has no primary key or no row). With an empty \<open>update_fields\<close> nothing happens;
  with a non-empty one the named columns of the existing row are written, and an instance
  without primary key or without row is an error. The result is the raised error (if
  any), \<open>self\<close> and the store.
\<close>

definition next_pk :: "db \<Rightarrow> nat" where
  "next_pk d = Suc (fold max (map (\<lambda>c. case pk c of None \<Rightarrow> 0 | Some k \<Rightarrow> k) (courses d)) 0)"

definition copy_field :: "course \<Rightarrow> string \<Rightarrow> course \<Rightarrow> course" where
  "copy_field self name row =
     (if name = ''title'' then row\<lparr>title := title self\<rparr>
      else if name = ''slug'' then row\<lparr>slug := slug self\<rparr>
      else if name = ''course_file'' then row\<lparr>course_file := course_file self\<rparr>
      else if name = ''file_size'' then row\<lparr>file_size := file_size self\<rparr>
      else if name = ''file_type'' then row\<lparr>file_type := file_type self\<rparr>
      else if name = ''total_pages'' then row\<lparr>total_pages := total_pages self\<rparr>
      else if name = ''is_public'' then row\<lparr>is_public := is_public self\<rparr>
      else if name = ''published_at'' then row\<lparr>published_at := published_at self\<rparr>
      else if name = ''total_lessons'' then row\<lparr>total_lessons := total_lessons self\<rparr>
      else if name = ''total_enrollments'' then row\<lparr>total_enrollments := total_enrollments self\<rparr>
      else if name = ''average_rating'' then row\<lparr>average_rating := average_rating self\<rparr>
      else row)"

definition super_save ::
  "db \<Rightarrow> course \<Rightarrow> string list option \<Rightarrow> error option \<times> course \<times> db" where
  "super_save d self update_fields =
     (case update_fields of
        None \<Rightarrow>
          (case pk self of
             None \<Rightarrow>
               (let self' = self\<lparr>pk := Some (next_pk d)\<rparr>
                in (None, self', d\<lparr>courses := courses d @ [self']\<rparr>))
           | Some k \<Rightarrow>
               if list_ex (\<lambda>row. pk row = Some k) (courses d)
               then (None, self,
                     d\<lparr>courses := map (\<lambda>row. if pk row = Some k then self else row) (courses d)\<rparr>)
               else (None, self, d\<lparr>courses := courses d @ [self]\<rparr>))
      | Some names \<Rightarrow>
          if names = [] then (None, self, d)
          else
            (case pk self of
               None \<Rightarrow> (Some ValueError, self, d)
             | Some k \<Rightarrow>
                 if list_ex (\<lambda>row. pk row = Some k) (courses d)
                 then (None, self,
                       d\<lparr>courses :=
                            map (\<lambda>row. if pk row = Some k then fold (copy_field self) names row
                                       else row) (courses d)\<rparr>)
                 else (Some DatabaseError, self, d)))"

text \<open>Lines 276-292 of \<open>Course.save\<close>: file type, page count and size from the upload.\<close>

definition extract_file_metadata :: "libs \<Rightarrow> course \<Rightarrow> course" where
  "extract_file_metadata L self =
     (case uploaded_file self of
        None \<Rightarrow> self
      | Some f \<Rightarrow>
          (let ext = lower (snd (splitext (f_name f)));
               self1 =
                 (if ext = ''.pdf''
                  then self\<lparr>file_type := ''pdf'',
                            total_pages := get_pdf_page_count L (self\<lparr>file_type := ''pdf''\<rparr>)\<rparr>
                  else if ext = ''.docx'' \<or> ext = ''.doc''
                  then self\<lparr>file_type := ''pdf''\<rparr>
                  else self)
           in self1\<lparr>file_size := int (length (f_bytes f))\<rparr>))"

definition is_docx_name :: "string \<Rightarrow> bool" where
  "is_docx_name name = (endswith (lower name) ''.docx'' \<or> endswith (lower name) ''.doc'')"

text \<open>
  \<open>Course.save(self, **kwargs)\<close>. The \<open>try\<close> block is the conversion, the page count and
  the recursive \<open>self.save(update_fields=[...])\<close>; when any of them raises, the \<open>except\<close>
  branch runs on \<open>self\<close> as it stands; an error of the \<open>except\<close> branch itself leaves
  \<open>save\<close>. Afterwards \<open>super().save(**kwargs)\<close> runs once more. \<open>pk\<close> is \<open>None\<close> on an
  instance that carries no primary key yet; \<open>is_new\<close> is computed from it.
\<close>

function save ::
  "libs \<Rightarrow> db \<Rightarrow> course \<Rightarrow> string list option \<Rightarrow> error option \<times> course \<times> db" where
  "save L d self update_fields =
     (let self1 = generate_slug L d self;
          is_new = (pk self1 = None);
          original_file = (if is_new then uploaded_file self1 else None);
          self2 = extract_file_metadata L self1
      in case super_save d self2 update_fields of
           (Some err, self3, d1) \<Rightarrow> (Some err, self3, d1)
         | (None, self3, d1) \<Rightarrow>
             (case original_file of
                None \<Rightarrow> (None, self3, d1)
              | Some f \<Rightarrow>
                  if is_new \<and> is_docx_name (f_name f) then
                    (case
                       (case convert_docx_to_pdf L self3 f of
                          None \<Rightarrow> (Some ConversionError, self3, d1)
                        | Some self4 \<Rightarrow>
                            save L d1 (self4\<lparr>total_pages := get_pdf_page_count L self4\<rparr>)
                              (Some [''course_file'', ''file_size'', ''file_type'', ''total_pages'']))
                     of
                       (None, self5, d2) \<Rightarrow> super_save d2 self5 update_fields
                     | (Some err, self5, d2) \<Rightarrow>
                         (case save L d2
                                 (self5\<lparr>file_type := ''docx'',
                                        total_pages :=
                                          get_docx_page_count L (self5\<lparr>file_type := ''docx''\<rparr>)\<rparr>)
                                 (Some [''file_type'', ''total_pages'']) of
                            (None, self6, d3) \<Rightarrow> super_save d3 self6 update_fields
                          | (Some err', self6, d3) \<Rightarrow> (Some err', self6, d3)))
                  else (None, self3, d1)))"
  by pat_completeness auto

termination save
proof -
  have ok: "update_fields = None \<or> update_fields = Some []"
    if "(None, self', d') = super_save d self update_fields" and "pk self = None"
    for self' d' d self update_fields
    using that by (auto simp: super_save_def split: option.splits if_splits)
  have pk_slug: "pk (generate_slug L d self) = pk self" for L d self
    by (simp add: generate_slug_def Let_def)
  have pk_meta: "pk (extract_file_metadata L self) = pk self" for L self
    by (simp add: extract_file_metadata_def Let_def split: option.splits)
  show ?thesis
    apply (relation "measure (\<lambda>(L, d, self, update_fields).
         if update_fields = None \<or> update_fields = Some [] then 1 else 0)")
      apply simp
     apply (auto dest!: ok simp: pk_slug pk_meta)
    done
qed

declare save.simps [simp del]

subsection \<open>Enrolling\<close>

text \<open>
  \<open>Course.enroll_user(self, user)\<close>. \<open>get_or_create\<close> looks the (user, course) row up,
  raises on several rows, and otherwise inserts a row with the model's defaults
  (\<open>new_id\<close> is the value of \<open>uuid.uuid4()\<close>) and sends \<open>post_save\<close> with
  \<open>created=True\<close>. The result is the returned enrollment or the raised error, \<open>self\<close>
  and the store.
\<close>

definition enroll_user ::
  "libs \<Rightarrow> db \<Rightarrow> course \<Rightarrow> nat \<Rightarrow> timestamp \<Rightarrow> nat \<Rightarrow> (error + enrollment) \<times> course \<times> db" where
  "enroll_user L d self user now new_id =
     (case pk self of
        None \<Rightarrow> (Inl ValueError, self, d)
      | Some cid \<Rightarrow>
          (case filter (\<lambda>e. e_user e = user \<and> e_course e = cid) (enrollments d) of
             [] \<Rightarrow>
               (let enrollment =
                      \<lparr>e_id = new_id, e_user = user, e_course = cid, enrolled_at = now,
                       completed_at = None, current_page = 1, current_lesson = None,
                       pages_completed = 0, total_pages_viewed = 0, bookmarked_pages = [],
                       e_notes = []\<rparr>;
                    d1 = update_course_enrollment_count
                           (d\<lparr>enrollments := enrollments d @ [enrollment]\<rparr>) enrollment True;
                    self1 = self\<lparr>total_enrollments := total_enrollments self + 1\<rparr>
                in case save L d1 self1 None of
                     (None, self2, d2) \<Rightarrow> (Inr enrollment, self2, d2)
                   | (Some err, self2, d2) \<Rightarrow> (Inl err, self2, d2))
           | [enrollment] \<Rightarrow> (Inr enrollment, self, d)
           | _ \<Rightarrow> (Inl MultipleObjectsReturned, self, d)))"

subsection \<open>The admin's save hook (admin.py, CourseAdmin.save_model)\<close>

text \<open>
  \<open>CourseAdmin.save_model\<close>. \<open>admin.py\<close> imports \<open>timezone\<close> from \<open>time\<close>, where it is an
  integer (the UTC offset), so \<open>timezone.now()\<close> on the making-public branch raises
  \<open>AttributeError\<close> before anything is assigned or saved. The other two branches reach
  \<open>super().save_model\<close>, which calls \<open>obj.save()\<close>.
\<close>

definition save_model :: "libs \<Rightarrow> db \<Rightarrow> course \<Rightarrow> error option \<times> course \<times> db" where
  "save_model L d obj =
     (if is_public obj \<and> published_at obj = None then (Some AttributeError, obj, d)
      else if \<not> is_public obj then save L d (obj\<lparr>published_at := None\<rparr>) None
      else save L d obj None)"

section \<open>Lessons and ratings (models.py, signals.py)\<close>

text \<open>
  \<open>Lesson.save\<close> (slug from the title, then \<open>Model.save\<close>, then \<open>post_save\<close>) and
  \<open>Lesson.delete\<close>: the row goes, \<open>current_lesson\<close> references are set to null
  (\<open>on_delete=SET_NULL\<close>), and \<open>post_delete\<close> is sent, for which \<open>signals.py\<close> registers no
  receiver with sender \<open>Lesson\<close>.
\<close>

definition lesson_save :: "libs \<Rightarrow> db \<Rightarrow> lesson \<Rightarrow> lesson \<times> db" where
  "lesson_save L d self =
     (let self1 = (if l_slug self = [] then self\<lparr>l_slug := slugify L (l_title self)\<rparr> else self);
          created = (\<not> list_ex (\<lambda>r. l_id r = l_id self1) (lessons d));
          d1 = (if created then d\<lparr>lessons := lessons d @ [self1]\<rparr>
                else d\<lparr>lessons := map (\<lambda>r. if l_id r = l_id self1 then self1 else r) (lessons d)\<rparr>)
      in (self1, update_course_lesson_count d1 self1 created))"

definition lesson_delete :: "db \<Rightarrow> lesson \<Rightarrow> db" where
  "lesson_delete d self =
     d\<lparr>lessons := filter (\<lambda>r. l_id r \<noteq> l_id self) (lessons d),
       enrollments :=
         map (\<lambda>e. if current_lesson e = Some (l_id self) then e\<lparr>current_lesson := None\<rparr> else e)
           (enrollments d)\<rparr>"

text \<open>
  \<open>CourseRating\<close>: \<open>Model.save\<close> followed by \<open>post_save\<close>, and \<open>Model.delete\<close> followed by
  \<open>post_delete\<close>; \<open>update_course_average_rating\<close> receives both.
\<close>

definition rating_save :: "db \<Rightarrow> rating \<Rightarrow> db" where
  "rating_save d self =
     update_course_average_rating
       (if list_ex (\<lambda>r. r_id r = r_id self) (ratings d)
        then d\<lparr>ratings := map (\<lambda>r. if r_id r = r_id self then self else r) (ratings d)\<rparr>
        else d\<lparr>ratings := ratings d @ [self]\<rparr>) self"

definition rating_delete :: "db \<Rightarrow> rating \<Rightarrow> db" where
  "rating_delete d self =
     update_course_average_rating
       (d\<lparr>ratings := filter (\<lambda>r. r_id r \<noteq> r_id self) (ratings d)\<rparr>) self"

text \<open>The arithmetic mean as the specification words it: the sum over the number of values,
  and 0 for no value.\<close>

definition arithmetic_mean :: "int list \<Rightarrow> rat" where
  "arithmetic_mean xs = (if xs = [] then 0 else of_int (sum_list xs) / of_int (int (length xs)))"

section \<open>Concrete stores and uploads\<close>

text \<open>
  A course of 10 pages with one enrollment (user 7), and a new course whose upload is a DOCX
  of 25 paragraphs in an environment where every conversion and every PDF parse raises
  (\<open>slugify\<close> is stood in for by lower-casing).
\<close>

definition ex_course :: course where
  "ex_course =
     \<lparr>pk = Some 1, title = ''Intro'', slug = ''intro'', course_file = None, file_size = 0,
      file_type = ''pdf'', total_pages = 10, is_public = True, published_at = None,
      total_lessons = 0, total_enrollments = 1, average_rating = 0\<rparr>"

definition ex_enrollment :: enrollment where
  "ex_enrollment =
     \<lparr>e_id = 1, e_user = 7, e_course = 1, enrolled_at = 0, completed_at = None,
      current_page = 1, current_lesson = None, pages_completed = 0, total_pages_viewed = 0,
      bookmarked_pages = [], e_notes = []\<rparr>"

definition ex_db :: db where
  "ex_db = \<lparr>courses = [ex_course], lessons = [], enrollments = [ex_enrollment], logs = [],
            ratings = []\<rparr>"

definition ex_libs :: libs where
  "ex_libs =
     \<lparr>slugify = lower, pdf_page_count = (\<lambda>b. None),
      docx_paragraph_count = (\<lambda>b. Some 25), docx_pdf_bytes = (\<lambda>b. None)\<rparr>"

definition ex_docx_course :: course where
  "ex_docx_course =
     \<lparr>pk = None, title = ''Notes'', slug = [],
      course_file = Some \<lparr>f_name = ''notes.docx'', f_bytes = ''PK...''\<rparr>, file_size = 0,
      file_type = [], total_pages = 0, is_public = False, published_at = None,
      total_lessons = 0, total_enrollments = 0, average_rating = 0\<rparr>"

definition ex_lesson :: lesson where
  "ex_lesson =
     \<lparr>l_id = 1, l_course = 1, l_title = ''One'', l_slug = [], l_page_number = 1, l_order = 1\<rparr>"

definition ex_rating3 :: rating where
  "ex_rating3 = \<lparr>r_id = 1, r_user = 7, r_course = 1, r_rating = 3\<rparr>"

definition ex_rating5 :: rating where
  "ex_rating5 = \<lparr>r_id = 2, r_user = 8, r_course = 1, r_rating = 5\<rparr>"

section \<open>Properties of the progress tracker\<close>

lemma update_progress_pages_completed:
  "pages_completed (fst (update_progress d crs self p t now)) =
     (if p > pages_completed self then p else pages_completed self)"
  by (simp add: update_progress_def Let_def)

lemma update_progress_current_page:
  "current_page (fst (update_progress d crs self p t now)) = p"
  by (simp add: update_progress_def Let_def)

lemma update_progress_completed_at:
  "completed_at (fst (update_progress d crs self p t now)) =
     (if p \<ge> total_pages crs \<and> completed_at self = None then Some now else completed_at self)"
  by (simp add: update_progress_def Let_def)

lemma run_updates_keeps_completed:
  "completed_at self = Some t0 \<Longrightarrow> completed_at (fst (run_updates d crs self calls)) = Some t0"
proof (induction calls arbitrary: d self)
  case Nil
  then show ?case by simp
next
  case (Cons c calls)
  obtain p t now where c: "c = (p, t, now)" by (cases c)
  obtain self' d' where u: "update_progress d crs self p t now = (self', d')"
    by (cases "update_progress d crs self p t now")
  have "completed_at self' = Some t0"
    using update_progress_completed_at [of d crs self p t now] u Cons.prems by simp
  then show ?case using Cons.IH c u by simp
qed

lemma run_updates_below_total:
  "completed_at self = None \<Longrightarrow> \<forall>(p, t, now) \<in> set calls. p < total_pages crs \<Longrightarrow>
   completed_at (fst (run_updates d crs self calls)) = None"
proof (induction calls arbitrary: d self)
  case Nil
  then show ?case by simp
next
  case (Cons c calls)
  obtain p t now where c: "c = (p, t, now)" by (cases c)
  obtain self' d' where u: "update_progress d crs self p t now = (self', d')"
    by (cases "update_progress d crs self p t now")
  have "p < total_pages crs" using Cons.prems(2) c by simp
  then have "completed_at self' = None"
    using update_progress_completed_at [of d crs self p t now] u Cons.prems(1) by simp
  then show ?case using Cons.IH [of self' d'] Cons.prems(2) c u by simp
qed

lemma run_updates_append:
  "run_updates d crs self (xs @ ys) =
     (case run_updates d crs self xs of (self', d') \<Rightarrow> run_updates d' crs self' ys)"
  by (induction xs arbitrary: d self) (auto split: prod.splits)

text \<open>
  C3. \<open>update_progress\<close> is monotonic on \<open>pages_completed\<close>: a call never decreases it, a
  call with \<open>page_number \<le> pages_completed\<close> leaves it unchanged, and \<open>current_page\<close>
  becomes \<open>page_number\<close> whatever its value.
\<close>

theorem C3_update_progress_monotonic:
  "pages_completed self \<le> pages_completed (fst (update_progress d crs self p t now)) \<and>
   (p \<le> pages_completed self \<longrightarrow>
      pages_completed (fst (update_progress d crs self p t now)) = pages_completed self) \<and>
   current_page (fst (update_progress d crs self p t now)) = p"
  by (simp add: update_progress_pages_completed update_progress_current_page)

theorem C3_update_progress_monotonic_witness:
  "(3::int) \<le> pages_completed (ex_enrollment\<lparr>pages_completed := 5\<rparr>) \<and>
   pages_completed
     (fst (update_progress ex_db ex_course (ex_enrollment\<lparr>pages_completed := 5\<rparr>) 3 30 100)) = 5 \<and>
   current_page
     (fst (update_progress ex_db ex_course (ex_enrollment\<lparr>pages_completed := 5\<rparr>) 3 30 100)) = 3"
  using C3_update_progress_monotonic
    [where self = "ex_enrollment\<lparr>pages_completed := 5\<rparr>" and p = 3 and d = ex_db
       and crs = ex_course and t = 30 and now = 100]
  by simp

text \<open>
  C4. Completion is one-way: starting from an enrollment that is not completed, after calls
  that all stay below \<open>course.total_pages\<close>, the first call with
  \<open>page_number \<ge> course.total_pages\<close> stamps \<open>completed_at\<close> with its own time, and no later
  call (whatever its page number) clears or overwrites that stamp.
\<close>

theorem C4_completion_one_way:
  assumes "completed_at self = None"
    and "\<forall>(q, t', n') \<in> set before. q < total_pages crs"
    and "total_pages crs \<le> p"
  shows "completed_at (fst (run_updates d crs self (before @ (p, t, now) # after))) = Some now"
proof -
  obtain s1 d1 where r1: "run_updates d crs self before = (s1, d1)"
    by (cases "run_updates d crs self before")
  have n1: "completed_at s1 = None"
    using run_updates_below_total [OF assms(1) assms(2), of d] r1 by simp
  obtain s2 d2 where r2: "update_progress d1 crs s1 p t now = (s2, d2)"
    by (cases "update_progress d1 crs s1 p t now")
  have c2: "completed_at s2 = Some now"
    using update_progress_completed_at [of d1 crs s1 p t now] r2 n1 assms(3) by simp
  have "run_updates d crs self (before @ (p, t, now) # after) = run_updates d2 crs s2 after"
    by (simp add: run_updates_append r1 r2)
  then show ?thesis using run_updates_keeps_completed [OF c2, of d2 crs after] by simp
qed

theorem C4_completion_one_way_witness:
  "completed_at ex_enrollment = None \<and>
   list_all (\<lambda>(q, t', n'). q < total_pages ex_course) [(5, 30, 100), (3, 10, 101)] \<and>
   total_pages ex_course \<le> 10 \<and>
   completed_at
     (fst (run_updates ex_db ex_course ex_enrollment
        ([(5, 30, 100), (3, 10, 101)] @ (10, 20, 102) # [(2, 5, 103), (10, 1, 104)]))) = Some 102"
proof -
  have a: "completed_at ex_enrollment = None" by (simp add: ex_enrollment_def)
  have b: "\<forall>(q, t', n') \<in> set [(5, 30, 100), (3, 10, 101)]. q < total_pages ex_course"
    by (simp add: ex_course_def)
  have c: "total_pages ex_course \<le> 10" by (simp add: ex_course_def)
  show ?thesis
    using C4_completion_one_way [OF a b c, of ex_db 20 102 "[(2, 5, 103), (10, 1, 104)]"] a b c
    by simp
qed

section \<open>Properties of the API actions\<close>

lemma time_spent_sum: "time_spent d e = sum_list (map pl_time_spent (filter (\<lambda>l. pl_enrollment l = e_id e) (logs d)))"
  by (simp add: time_spent_def Sum_def)

lemma enrollment_save_logs: "logs (enrollment_save d e) = logs d"
  by (simp add: enrollment_save_def update_course_enrollment_count_def update_course_rows_def Let_def)

lemma enrollment_save_tpv_logs: "logs (enrollment_save_total_pages_viewed d e) = logs d"
  by (simp add: enrollment_save_total_pages_viewed_def update_course_enrollment_count_def)

lemma update_progress_logs:
  "logs (snd (update_progress d crs self p t now)) = logs d @ [\<lparr>pl_enrollment = e_id self, pl_page_number = p,
                   pl_action = ''page_view'', pl_time_spent = t, pl_metadata = ''{}''\<rparr>]"
  by (simp add: update_progress_def Let_def enrollment_save_logs enrollment_save_tpv_logs)

lemma update_progress_id: "e_id (fst (update_progress d crs self p t now)) = e_id self"
  by (simp add: update_progress_def Let_def)

lemma filter_Cons_first: "filter P xs = x # ys \<Longrightarrow> P x \<and> x \<in> set xs"
  by (metis filter_eq_Cons_iff in_set_conv_decomp)

lemma get_object_Some:
  assumes "get_object d user key = Some (e, c)"
  shows "e_id e = key" and "e_user e = user" and "e \<in> set (enrollments d)"
    and "pk c = Some (e_course e)" and "c \<in> set (courses d)"
  using assms unfolding get_object_def
  by (auto split: list.splits dest: filter_Cons_first)




lemma ex_get_object: "get_object ex_db 7 1 = Some (ex_enrollment, ex_course)"
  by (simp add: get_object_def ex_db_def ex_enrollment_def ex_course_def)


lemma validate_with_get_course:
  "validate (Some crs) v = Inr v' \<Longrightarrow> v_page_number v' \<le> total_pages crs"
  by (auto simp: validate_def split: if_splits)

text \<open>
  C1 (the code at a request beyond the last page). The enrollment view set has no
  \<open>get_course\<close>, so \<open>validate\<close> compares nothing: on a course of 10 pages the request
  \<open>{page_number: 11}\<close> is answered 200 and the stored \<open>pages_completed\<close> becomes 11.
\<close>

theorem C1_page_beyond_total_accepted:
  "total_pages ex_course = 10 \<and>
   status (fst (view_update_progress ex_db 7 1
      \<lparr>rq_page_number = Some 11, rq_time_spent = None, rq_action = None, rq_metadata = None\<rparr> 50))
     = 200 \<and>
   map pages_completed (enrollments (snd (view_update_progress ex_db 7 1
      \<lparr>rq_page_number = Some 11, rq_time_spent = None, rq_action = None, rq_metadata = None\<rparr> 50)))
     = [11]"
  by (simp add: view_update_progress_def get_object_def ex_db_def ex_course_def ex_enrollment_def
      is_valid_def validate_def CourseEnrollmentViewSet_get_course_def update_progress_def Let_def
      enrollment_save_def enrollment_save_total_pages_viewed_def
      update_course_enrollment_count_def lookup_current_lesson_def)





lemma stats_total_time_spent_sum:
  "stats_total_time_spent d user =
     sum_list (map pl_time_spent
       (filter (\<lambda>l. (pl_enrollment l, user) \<in> set (map (\<lambda>r. (e_id r, e_user r)) (enrollments d)))
          (logs d)))"
proof -
  have eq: "list_ex (\<lambda>e. e_id e = k \<and> e_user e = user) xs \<longleftrightarrow>
        (k, user) \<in> set (map (\<lambda>r. (e_id r, e_user r)) xs)" for k and xs :: "enrollment list"
    by (auto simp: list_ex_iff)
  have "stats_total_time_spent d user =
     sum_list (map pl_time_spent
       (filter (\<lambda>l. list_ex (\<lambda>e. e_id e = pl_enrollment l \<and> e_user e = user)
                                 (enrollments d)) (logs d)))"
    by (simp add: stats_total_time_spent_def Sum_def)
  then show ?thesis unfolding eq .
qed

lemma update_progress_enrollment_keys:
  assumes "e \<in> set (enrollments d)" and "distinct (map e_id (enrollments d))"
  shows "map (\<lambda>r. (e_id r, e_user r)) (enrollments (snd (update_progress d crs e p t now))) =
         map (\<lambda>r. (e_id r, e_user r)) (enrollments d)"
proof -
  have same: "r = e" if "r \<in> set (enrollments d)" "e_id r = e_id e" for r
    using that assms by (meson distinct_map inj_onD)
  have ex: "list_ex (\<lambda>r. e_id r = e_id e) (enrollments d)"
    using assms(1) by (auto simp: list_ex_iff)
  show ?thesis
    using ex same
    by (auto simp: update_progress_def Let_def enrollment_save_def
        enrollment_save_total_pages_viewed_def update_course_enrollment_count_def)
qed

text \<open>
  C10. Every update-progress request answered 200 appends exactly two log rows for the
  enrollment: the \<open>page_view\<close> row written by \<open>CourseEnrollment.update_progress\<close> and the row
  with the request's action written by the view, both with the submitted \<open>time_spent\<close>.
  The enrollment's \<open>time_spent\<close> aggregate therefore grows by twice the submitted value,
  and so does the dashboard total of the requesting user (enrollment keys being distinct).
\<close>

theorem C10_time_spent_logged_twice:
  assumes r: "view_update_progress d user key rq now = (r, d')" and ok: "status r = 200"
  shows "\<exists>e crs v. get_object d user key = Some (e, crs) \<and>
     is_valid CourseEnrollmentViewSet_get_course rq = Inr v \<and>
     logs d' = logs d @
       [\<lparr>pl_enrollment = key, pl_page_number = v_page_number v, pl_action = ''page_view'',
         pl_time_spent = v_time_spent v, pl_metadata = ''{}''\<rparr>,
        \<lparr>pl_enrollment = key, pl_page_number = v_page_number v, pl_action = v_action v,
         pl_time_spent = v_time_spent v, pl_metadata = v_metadata v\<rparr>] \<and>
     time_spent d' e = time_spent d e + 2 * v_time_spent v \<and>
     (distinct (map e_id (enrollments d)) \<longrightarrow>
        stats_total_time_spent d' user = stats_total_time_spent d user + 2 * v_time_spent v)"
proof -
  obtain e crs where g: "get_object d user key = Some (e, crs)"
    using r ok by (cases "get_object d user key") (auto simp: view_update_progress_def)
  obtain v where v: "is_valid CourseEnrollmentViewSet_get_course rq = Inr v"
    using r ok g
    by (cases "is_valid CourseEnrollmentViewSet_get_course rq")
      (auto simp: view_update_progress_def)
  obtain e1 d1 where u: "update_progress d crs e (v_page_number v) (v_time_spent v) now = (e1, d1)"
    by (cases "update_progress d crs e (v_page_number v) (v_time_spent v) now")
  have id: "e_id e = key" using get_object_Some(1) [OF g] .
  have id1: "e_id e1 = key"
    using update_progress_id [of d crs e "v_page_number v" "v_time_spent v" now] u id by simp
  have l1: "logs d1 = logs d @ [\<lparr>pl_enrollment = key, pl_page_number = v_page_number v,
                   pl_action = ''page_view'', pl_time_spent = v_time_spent v, pl_metadata = ''{}''\<rparr>]"
    using update_progress_logs [of d crs e "v_page_number v" "v_time_spent v" now] u id by simp
  have d': "d' = d1\<lparr>logs := logs d1 @
                        [\<lparr>pl_enrollment = e_id e1, pl_page_number = v_page_number v,
                          pl_action = v_action v, pl_time_spent = v_time_spent v,
                          pl_metadata = v_metadata v\<rparr>]\<rparr>"
    using r g v u by (simp add: view_update_progress_def)
  have l': "logs d' = logs d @
       [\<lparr>pl_enrollment = key, pl_page_number = v_page_number v, pl_action = ''page_view'',
         pl_time_spent = v_time_spent v, pl_metadata = ''{}''\<rparr>,
        \<lparr>pl_enrollment = key, pl_page_number = v_page_number v, pl_action = v_action v,
         pl_time_spent = v_time_spent v, pl_metadata = v_metadata v\<rparr>]"
    by (simp add: d' l1 id1)
  have ts: "time_spent d' e = time_spent d e + 2 * v_time_spent v"
    by (simp add: time_spent_sum l' id)
  note f = get_object_Some [OF g]
  have en: "enrollments d' = enrollments d1" by (simp add: d')
  have st: "stats_total_time_spent d' user = stats_total_time_spent d user + 2 * v_time_spent v"
    if dis: "distinct (map e_id (enrollments d))"
  proof -
    have "map (\<lambda>r. (e_id r, e_user r)) (enrollments d1) =
          map (\<lambda>r. (e_id r, e_user r)) (enrollments d)"
      using update_progress_enrollment_keys
        [OF f(3) dis, of crs "v_page_number v" "v_time_spent v" now] u by simp
    then have keys: "map (\<lambda>r. (e_id r, e_user r)) (enrollments d') =
                map (\<lambda>r. (e_id r, e_user r)) (enrollments d)"
      by (simp add: en)
    have mem: "(key, user) \<in> set (map (\<lambda>r. (e_id r, e_user r)) (enrollments d))"
      using f(1,2,3) by force
    show ?thesis
      unfolding stats_total_time_spent_sum keys l' using mem by simp
  qed
  show ?thesis using g v l' ts st by blast
qed

theorem C10_time_spent_logged_twice_witness:
  "\<exists>r d'. view_update_progress ex_db 7 1
       \<lparr>rq_page_number = Some 5, rq_time_spent = Some 30, rq_action = Some ''page_view'',
        rq_metadata = None\<rparr> 50 = (r, d') \<and> status r = 200 \<and>
     map pl_time_spent (logs d') = [30, 30] \<and>
     map pl_action (logs d') = [''page_view'', ''page_view''] \<and>
     time_spent ex_db ex_enrollment = 0 \<and> time_spent d' ex_enrollment = 60 \<and>
     distinct (map e_id (enrollments ex_db)) \<and>
     stats_total_time_spent ex_db 7 = 0 \<and> stats_total_time_spent d' 7 = 60"
proof -
  define rq where "rq = \<lparr>rq_page_number = Some 5, rq_time_spent = Some 30,
    rq_action = Some ''page_view'', rq_metadata = None\<rparr>"
  obtain r d' where r: "view_update_progress ex_db 7 1 rq 50 = (r, d')"
    by (cases "view_update_progress ex_db 7 1 rq 50")
  have v: "is_valid CourseEnrollmentViewSet_get_course rq =
      Inr \<lparr>v_page_number = 5, v_time_spent = 30, v_action = ''page_view'', v_metadata = ''{}''\<rparr>"
    by (simp add: is_valid_def validate_def CourseEnrollmentViewSet_get_course_def rq_def)
  have ok: "status r = 200"
    using r unfolding view_update_progress_def ex_get_object v by (auto split: prod.splits)
  have t0: "time_spent ex_db ex_enrollment = 0"
    by (simp add: time_spent_sum ex_db_def)
  obtain e crs v' where
    g: "get_object ex_db 7 1 = Some (e, crs)" and
    v': "is_valid CourseEnrollmentViewSet_get_course rq = Inr v'" and
    l: "logs d' = logs ex_db @
       [\<lparr>pl_enrollment = 1, pl_page_number = v_page_number v', pl_action = ''page_view'',
         pl_time_spent = v_time_spent v', pl_metadata = ''{}''\<rparr>,
        \<lparr>pl_enrollment = 1, pl_page_number = v_page_number v', pl_action = v_action v',
         pl_time_spent = v_time_spent v', pl_metadata = v_metadata v'\<rparr>]" and
    ts: "time_spent d' e = time_spent ex_db e + 2 * v_time_spent v'" and
    st: "distinct (map e_id (enrollments ex_db)) \<longrightarrow>
         stats_total_time_spent d' 7 = stats_total_time_spent ex_db 7 + 2 * v_time_spent v'"
    using C10_time_spent_logged_twice [OF r ok] by blast
  have dis: "distinct (map e_id (enrollments ex_db))" by (simp add: ex_db_def)
  have s0: "stats_total_time_spent ex_db 7 = 0"
    by (simp add: stats_total_time_spent_sum ex_db_def)
  have e: "e = ex_enrollment" using g unfolding ex_get_object by simp
  have veq: "v' = \<lparr>v_page_number = 5, v_time_spent = 30, v_action = ''page_view'',
      v_metadata = ''{}''\<rparr>"
    using v' unfolding v by simp
  have "map pl_time_spent (logs d') = [30, 30]"
    and "map pl_action (logs d') = [''page_view'', ''page_view'']"
    and "time_spent d' ex_enrollment = 60"
    and "stats_total_time_spent d' 7 = 60"
    using l ts t0 st dis s0 unfolding e veq by (simp_all add: ex_db_def)
  then show ?thesis using r ok t0 dis s0 unfolding rq_def
    by (intro exI [where x = r] exI [where x = d']) simp
qed

section \<open>Properties of saving a course\<close>

lemma generate_slug_pk: "pk (generate_slug L d self) = pk self"
  by (simp add: generate_slug_def Let_def)

lemma extract_file_metadata_pk: "pk (extract_file_metadata L self) = pk self"
  by (simp add: extract_file_metadata_def Let_def split: option.splits)

lemma save_existing:
  "pk self \<noteq> None \<Longrightarrow>
   save L d self update_fields =
     super_save d (extract_file_metadata L (generate_slug L d self)) update_fields"
  by (subst save.simps) (auto simp: Let_def generate_slug_pk split: prod.splits option.splits)

lemma save_new_update_fields:
  "pk self = None \<Longrightarrow> names \<noteq> [] \<Longrightarrow>
   save L d self (Some names) =
     (Some ValueError, extract_file_metadata L (generate_slug L d self), d)"
  by (subst save.simps)
    (simp add: Let_def generate_slug_pk extract_file_metadata_pk super_save_def)

lemma generate_slug_published_at: "published_at (generate_slug L d self) = published_at self"
  by (simp add: generate_slug_def Let_def)

lemma extract_file_metadata_published_at:
  "published_at (extract_file_metadata L self) = published_at self"
  by (simp add: extract_file_metadata_def Let_def split: option.splits)

lemma super_save_published_at:
  "published_at (fst (snd (super_save d self update_fields))) = published_at self"
  by (simp add: super_save_def Let_def split: option.splits)

lemma convert_docx_to_pdf_published_at:
  "convert_docx_to_pdf L self f = Some self' \<Longrightarrow> published_at self' = published_at self"
  by (auto simp: convert_docx_to_pdf_def split: option.splits)

lemma save_update_fields_published_at:
  "names \<noteq> [] \<Longrightarrow>
   published_at (fst (snd (save L d self (Some names)))) = published_at self"
  by (cases "pk self = None")
    (simp_all add: save_new_update_fields save_existing super_save_published_at
      extract_file_metadata_published_at generate_slug_published_at)

lemma save_published_at:
  "published_at (fst (snd (save L d self update_fields))) = published_at self"
proof -
  define self1 where "self1 = generate_slug L d self"
  define self2 where "self2 = extract_file_metadata L self1"
  obtain eo self3 d1 where s3: "super_save d self2 update_fields = (eo, self3, d1)"
    by (cases "super_save d self2 update_fields")
  have p3: "published_at self3 = published_at self"
    using super_save_published_at [of d self2 update_fields] s3
    by (simp add: self2_def self1_def extract_file_metadata_published_at
        generate_slug_published_at)
  define inner where "inner f =
     (case convert_docx_to_pdf L self3 f of
        None \<Rightarrow> (Some ConversionError, self3, d1)
      | Some self4 \<Rightarrow>
          save L d1 (self4\<lparr>total_pages := get_pdf_page_count L self4\<rparr>)
            (Some [''course_file'', ''file_size'', ''file_type'', ''total_pages'']))" for f
  have pi: "published_at (fst (snd (inner f))) = published_at self" for f
    unfolding inner_def
    by (auto simp: p3 save_update_fields_published_at split: option.splits
        dest: convert_docx_to_pdf_published_at)
  define handler where "handler f =
     (case inner f of
        (None, self5, d2) \<Rightarrow> super_save d2 self5 update_fields
      | (Some err, self5, d2) \<Rightarrow>
          (case save L d2
                  (self5\<lparr>file_type := ''docx'',
                         total_pages := get_docx_page_count L (self5\<lparr>file_type := ''docx''\<rparr>)\<rparr>)
                  (Some [''file_type'', ''total_pages'']) of
             (None, self6, d3) \<Rightarrow> super_save d3 self6 update_fields
           | (Some err', self6, d3) \<Rightarrow> (Some err', self6, d3)))" for f
  have ph: "published_at (fst (snd (handler f))) = published_at self" for f
  proof -
    obtain e5 self5 d2 where i: "inner f = (e5, self5, d2)" by (cases "inner f")
    have p5: "published_at self5 = published_at self" using pi [of f] i by simp
    show ?thesis
    proof (cases e5)
      case None
      then show ?thesis
        using i p5 super_save_published_at [of d2 self5 update_fields]
        by (simp add: handler_def)
    next
      case (Some err)
      obtain e6 self6 d3 where r: "save L d2
                  (self5\<lparr>file_type := ''docx'',
                         total_pages := get_docx_page_count L (self5\<lparr>file_type := ''docx''\<rparr>)\<rparr>)
                  (Some [''file_type'', ''total_pages'']) = (e6, self6, d3)"
        by (cases "save L d2
                  (self5\<lparr>file_type := ''docx'',
                         total_pages := get_docx_page_count L (self5\<lparr>file_type := ''docx''\<rparr>)\<rparr>)
                  (Some [''file_type'', ''total_pages''])")
      have p6: "published_at self6 = published_at self"
        using save_update_fields_published_at [of "[''file_type'', ''total_pages'']" L d2
            "self5\<lparr>file_type := ''docx'',
                   total_pages := get_docx_page_count L (self5\<lparr>file_type := ''docx''\<rparr>)\<rparr>"]
          r p5 by simp
      show ?thesis
        using Some i r p6 super_save_published_at [of d3 self6 update_fields]
        by (cases e6) (simp_all add: handler_def)
    qed
  qed
  have "save L d self update_fields =
     (case eo of
        Some err \<Rightarrow> (Some err, self3, d1)
      | None \<Rightarrow>
          (case (if pk self1 = None then uploaded_file self1 else None) of
             None \<Rightarrow> (None, self3, d1)
           | Some f \<Rightarrow>
               if pk self1 = None \<and> is_docx_name (f_name f) then handler f
               else (None, self3, d1)))"
    by (subst save.simps)
      (simp add: Let_def s3 self1_def [symmetric] self2_def [symmetric] handler_def inner_def
        split: option.splits)
  then show ?thesis
    using p3 ph by (auto split: option.splits)
qed

lemma save_model_published_at:
  "published_at (fst (snd (save_model L d obj))) =
     (if is_public obj then published_at obj else None)"
  by (simp add: save_model_def save_published_at)

text \<open>
  C7 (the code when a course is made public). \<open>save\<close> never assigns \<open>published_at\<close>
  (lemma \<open>save_published_at\<close>): a stored private course whose \<open>is_public\<close> is set and saved
  ends public with \<open>published_at\<close> still unset, in \<open>self\<close> and in the row. The admin's
  \<open>save_model\<close>, the one place that means to stamp it, raises on the same input and leaves
  the store as it was.
\<close>

theorem C7_save_leaves_published_at_unset:
  "is_public
     (fst (snd (save L (ex_db\<lparr>courses := [ex_course\<lparr>is_public := False\<rparr>]\<rparr>) ex_course None))) \<and>
   published_at
     (fst (snd (save L (ex_db\<lparr>courses := [ex_course\<lparr>is_public := False\<rparr>]\<rparr>) ex_course None)))
     = None \<and>
   map (\<lambda>row. (is_public row, published_at row))
     (courses (snd (snd (save L (ex_db\<lparr>courses := [ex_course\<lparr>is_public := False\<rparr>]\<rparr>)
        ex_course None)))) = [(True, None)] \<and>
   save_model L (ex_db\<lparr>courses := [ex_course\<lparr>is_public := False\<rparr>]\<rparr>) ex_course =
     (Some AttributeError, ex_course, ex_db\<lparr>courses := [ex_course\<lparr>is_public := False\<rparr>]\<rparr>)"
proof -
  have pub: "is_public ex_course \<and> published_at ex_course = None"
    by (simp add: ex_course_def)
  have hook: "save_model L (ex_db\<lparr>courses := [ex_course\<lparr>is_public := False\<rparr>]\<rparr>) ex_course =
     (Some AttributeError, ex_course, ex_db\<lparr>courses := [ex_course\<lparr>is_public := False\<rparr>]\<rparr>)"
    using pub by (simp add: save_model_def)
  have sv: "is_public
     (fst (snd (save L (ex_db\<lparr>courses := [ex_course\<lparr>is_public := False\<rparr>]\<rparr>) ex_course None))) \<and>
   published_at
     (fst (snd (save L (ex_db\<lparr>courses := [ex_course\<lparr>is_public := False\<rparr>]\<rparr>) ex_course None)))
     = None \<and>
   map (\<lambda>row. (is_public row, published_at row))
     (courses (snd (snd (save L (ex_db\<lparr>courses := [ex_course\<lparr>is_public := False\<rparr>]\<rparr>)
        ex_course None)))) = [(True, None)]"
    by (simp add: save_existing ex_course_def ex_db_def generate_slug_def
        extract_file_metadata_def uploaded_file_def super_save_def)
  show ?thesis using sv hook by blast
qed

text \<open>
  C8 (the code on a DOCX upload whose conversion raises). For a new course (no primary key
  yet) with \<open>notes.docx\<close> of 25 paragraphs, \<open>save\<close> returns without error and keeps the
  DOCX, and \<open>total_pages\<close> is the estimate \<open>max(1, 25 // 10) = 2\<close>; but the \<open>except\<close> branch's
  \<open>self.save(update_fields=...)\<close> re-enters \<open>save\<close>, which derives \<open>file_type = 'pdf'\<close> from
  the extension again, so \<open>file_type\<close> ends \<open>'pdf'\<close>, in \<open>self\<close> and in the row. When the
  instance already carries a primary key, \<open>is_new\<close> is false and the conversion branch is
  not entered at all: \<open>file_type\<close> is \<open>'pdf'\<close> and \<open>total_pages\<close> stays 0.
\<close>

theorem C8_docx_fallback_reports_pdf:
  "(case save ex_libs ex_db ex_docx_course None of
      (err, self', d') \<Rightarrow>
        err = None \<and> course_file self' = course_file ex_docx_course \<and>
        file_type self' = ''pdf'' \<and> total_pages self' = 2 \<and>
        map (\<lambda>row. (file_type row, total_pages row)) (courses d') =
          [(''pdf'', 10), (''pdf'', 2)]) \<and>
   (case save ex_libs ex_db (ex_docx_course\<lparr>pk := Some 5\<rparr>) None of
      (err, self', d') \<Rightarrow>
        err = None \<and> course_file self' = course_file ex_docx_course \<and>
        file_type self' = ''pdf'' \<and> total_pages self' = 0 \<and>
        map (\<lambda>row. (file_type row, total_pages row)) (courses d') =
          [(''pdf'', 10), (''pdf'', 0)])"
proof -
  have new: "(case save ex_libs ex_db ex_docx_course None of
      (err, self', d') \<Rightarrow>
        err = None \<and> course_file self' = course_file ex_docx_course \<and>
        file_type self' = ''pdf'' \<and> total_pages self' = 2 \<and>
        map (\<lambda>row. (file_type row, total_pages row)) (courses d') =
          [(''pdf'', 10), (''pdf'', 2)])"
    by (subst save.simps)
      (simp add: save_existing ex_libs_def ex_docx_course_def ex_db_def ex_course_def
        generate_slug_def slug_loop.simps slug_candidate_def str_nat.simps digit_char_def
        lower_def lower_char_def uploaded_file_def extract_file_metadata_def splitext_def
        Let_def super_save_def next_pk_def is_docx_name_def endswith_def
        convert_docx_to_pdf_def get_docx_page_count_def copy_field_def)
  have keyed: "(case save ex_libs ex_db (ex_docx_course\<lparr>pk := Some 5\<rparr>) None of
      (err, self', d') \<Rightarrow>
        err = None \<and> course_file self' = course_file ex_docx_course \<and>
        file_type self' = ''pdf'' \<and> total_pages self' = 0 \<and>
        map (\<lambda>row. (file_type row, total_pages row)) (courses d') =
          [(''pdf'', 10), (''pdf'', 0)])"
    by (simp add: save_existing ex_libs_def ex_docx_course_def ex_db_def ex_course_def
        generate_slug_def slug_loop.simps slug_candidate_def str_nat.simps digit_char_def
        lower_def lower_char_def uploaded_file_def extract_file_metadata_def splitext_def
        Let_def super_save_def)
  show ?thesis using new keyed by blast
qed

section \<open>Properties of enrolling\<close>

lemma generate_slug_total_enrollments:
  "total_enrollments (generate_slug L d self) = total_enrollments self"
  by (simp add: generate_slug_def Let_def)

lemma extract_file_metadata_total_enrollments:
  "total_enrollments (extract_file_metadata L self) = total_enrollments self"
  by (simp add: extract_file_metadata_def Let_def split: option.splits)

lemma super_save_full:
  assumes "pk self = Some k"
  shows "fst (super_save d self None) = None"
    and "fst (snd (super_save d self None)) = self"
    and "enrollments (snd (snd (super_save d self None))) = enrollments d"
    and "\<forall>row \<in> set (courses (snd (snd (super_save d self None)))). pk row = Some k \<longrightarrow> row = self"
    and "list_ex (\<lambda>row. pk row = Some k) (courses (snd (snd (super_save d self None))))"
  using assms by (auto simp: super_save_def list_ex_iff)

lemma update_course_enrollment_count_enrollments:
  "enrollments (update_course_enrollment_count d e created) = enrollments d"
  by (simp add: update_course_enrollment_count_def update_course_rows_def Let_def)

text \<open>
  C2. \<open>enroll_user\<close> is idempotent. For a saved course and a (user, course) pair with at
  most one enrollment row (the pair is unique together), two calls in a row both return the
  same enrollment without error, the second changes neither \<open>self\<close> nor the store, exactly
  one row for the pair exists afterwards, and \<open>total_enrollments\<close> (of \<open>self\<close> and of the
  stored course row) is one more than before when the first call created the row, and
  unchanged when the row existed already.
\<close>

theorem C2_enroll_user_idempotent:
  assumes k: "pk self = Some cid"
    and u: "length (filter (\<lambda>e. e_user e = user \<and> e_course e = cid) (enrollments d)) \<le> 1"
  shows "\<exists>e self1 d1.
     enroll_user L d self user now1 id1 = (Inr e, self1, d1) \<and>
     enroll_user L d1 self1 user now2 id2 = (Inr e, self1, d1) \<and>
     filter (\<lambda>e. e_user e = user \<and> e_course e = cid) (enrollments d1) = [e] \<and>
     total_enrollments self1 =
       (if filter (\<lambda>e. e_user e = user \<and> e_course e = cid) (enrollments d) = []
        then total_enrollments self + 1 else total_enrollments self) \<and>
     (filter (\<lambda>e. e_user e = user \<and> e_course e = cid) (enrollments d) = [] \<longrightarrow>
        list_ex (\<lambda>row. pk row = Some cid) (courses d1) \<and>
        (\<forall>row \<in> set (courses d1). pk row = Some cid \<longrightarrow>
           total_enrollments row = total_enrollments self + 1))"
proof (cases "filter (\<lambda>e. e_user e = user \<and> e_course e = cid) (enrollments d)")
  case Nil
  define e where "e = \<lparr>e_id = id1, e_user = user, e_course = cid, enrolled_at = now1,
                       completed_at = None, current_page = 1, current_lesson = None,
                       pages_completed = 0, total_pages_viewed = 0, bookmarked_pages = [],
                       e_notes = []\<rparr>"
  define d0 where "d0 = update_course_enrollment_count (d\<lparr>enrollments := enrollments d @ [e]\<rparr>) e True"
  define self0 where "self0 = self\<lparr>total_enrollments := total_enrollments self + 1\<rparr>"
  define self1 where "self1 = extract_file_metadata L (generate_slug L d0 self0)"
  define d1 where "d1 = snd (snd (super_save d0 self1 None))"
  have k0: "pk self0 = Some cid" using k by (simp add: self0_def)
  have k1: "pk self1 = Some cid"
    by (simp add: self1_def extract_file_metadata_pk generate_slug_pk k0)
  have sv: "save L d0 self0 None = (None, self1, d1)"
    using super_save_full(1,2) [OF k1, of d0] k0
    by (simp add: save_existing self1_def [symmetric] d1_def prod_eq_iff)
  have first: "enroll_user L d self user now1 id1 = (Inr e, self1, d1)"
    using k Nil sv by (simp add: enroll_user_def Let_def e_def [symmetric] d0_def [symmetric] self0_def [symmetric])
  have en: "enrollments d1 = enrollments d @ [e]"
    using super_save_full(3) [OF k1, of d0]
    by (simp add: d1_def d0_def update_course_enrollment_count_enrollments)
  have f1: "filter (\<lambda>e. e_user e = user \<and> e_course e = cid) (enrollments d1) = [e]"
    using Nil by (simp add: en e_def)
  have second: "enroll_user L d1 self1 user now2 id2 = (Inr e, self1, d1)"
    using k1 f1 by (simp add: enroll_user_def)
  have t1: "total_enrollments self1 = total_enrollments self + 1"
    by (simp add: self1_def extract_file_metadata_total_enrollments
        generate_slug_total_enrollments self0_def)
  have rows: "\<forall>row \<in> set (courses d1). pk row = Some cid \<longrightarrow>
           total_enrollments row = total_enrollments self + 1"
    using super_save_full(4) [OF k1, of d0] t1 by (auto simp: d1_def)
  have ex: "list_ex (\<lambda>row. pk row = Some cid) (courses d1)"
    using super_save_full(5) [OF k1, of d0] by (simp add: d1_def)
  show ?thesis using first second f1 t1 rows ex Nil by auto
next
  case (Cons e es)
  then have es: "es = []" using u by simp
  have "enroll_user L d self user now1 id1 = (Inr e, self, d)"
    and "enroll_user L d self user now2 id2 = (Inr e, self, d)"
    using k Cons es by (simp_all add: enroll_user_def)
  then show ?thesis using Cons es by auto
qed

theorem C2_enroll_user_idempotent_witness:
  "pk ex_course = Some 1 \<and>
   filter (\<lambda>e. e_user e = 8 \<and> e_course e = 1) (enrollments ex_db) = [] \<and>
   (\<exists>e self1 d1.
      enroll_user ex_libs ex_db ex_course 8 100 2 = (Inr e, self1, d1) \<and>
      enroll_user ex_libs d1 self1 8 101 3 = (Inr e, self1, d1) \<and>
      filter (\<lambda>e. e_user e = 8 \<and> e_course e = 1) (enrollments d1) = [e] \<and>
      total_enrollments self1 = 2 \<and>
      list_ex (\<lambda>row. pk row = Some 1) (courses d1) \<and>
      list_all (\<lambda>row. pk row = Some 1 \<longrightarrow> total_enrollments row = 2) (courses d1))"
proof -
  have k: "pk ex_course = Some 1" by (simp add: ex_course_def)
  have n: "filter (\<lambda>e. e_user e = 8 \<and> e_course e = 1) (enrollments ex_db) = []"
    by (simp add: ex_db_def ex_enrollment_def)
  have u: "length (filter (\<lambda>e. e_user e = 8 \<and> e_course e = 1) (enrollments ex_db)) \<le> 1"
    by (simp add: ex_db_def ex_enrollment_def)
  have t: "total_enrollments ex_course = 1" by (simp add: ex_course_def)
  show ?thesis
    using C2_enroll_user_idempotent [OF k u, of ex_libs 100 2 101 3] k n t
    by (simp add: list_all_iff)
qed

section \<open>Properties of the counters\<close>

lemma update_course_rows_lessons: "lessons (update_course_rows cid f d) = lessons d"
  by (simp add: update_course_rows_def)

lemma update_course_rows_ratings: "ratings (update_course_rows cid f d) = ratings d"
  by (simp add: update_course_rows_def)

lemma update_course_rows_courses:
  "c \<in> set (courses (update_course_rows cid f d)) \<Longrightarrow> pk c = Some cid \<Longrightarrow>
   (\<And>x. pk (f x) = pk x) \<Longrightarrow> \<exists>c0 \<in> set (courses d). c = f c0"
  by (auto simp: update_course_rows_def split: if_splits)

lemma lesson_save_recounts:
  "\<forall>c \<in> set (courses (snd (lesson_save L d self))). pk c = Some (l_course self) \<longrightarrow>
     total_lessons c =
       int (length (filter (\<lambda>l. l_course l = l_course self)
                      (lessons (snd (lesson_save L d self)))))"
  by (auto simp: lesson_save_def update_course_lesson_count_def Let_def update_course_rows_def)

text \<open>
  C5 (the code on a lesson delete). Creating a lesson recounts: \<open>total_lessons\<close> becomes 1
  (lemma \<open>lesson_save_recounts\<close> in general). Deleting that lesson removes the row, but no
  receiver recounts: \<open>total_lessons\<close> stays 1 while the course has no lesson left.
\<close>

theorem C5_lesson_delete_keeps_stale_count:
  "(case lesson_save ex_libs ex_db ex_lesson of
      (l, d1) \<Rightarrow>
        map total_lessons (courses d1) = [1] \<and> length (lessons d1) = 1 \<and>
        map total_lessons (courses (lesson_delete d1 l)) = [1] \<and>
        lessons (lesson_delete d1 l) = [])"
  by (simp add: lesson_save_def lesson_delete_def update_course_lesson_count_def
      update_course_rows_def ex_db_def ex_course_def ex_lesson_def ex_libs_def Let_def)

lemma update_course_average_rating_mean:
  "\<forall>c \<in> set (courses (update_course_average_rating d r)). pk c = Some (r_course r) \<longrightarrow>
     average_rating c =
       arithmetic_mean (map r_rating (filter (\<lambda>x. r_course x = r_course r)
          (ratings (update_course_average_rating d r))))"
  by (auto simp: update_course_average_rating_def update_course_rows_def Avg_def
      arithmetic_mean_def Let_def)

text \<open>
  C6. After a \<open>CourseRating\<close> is saved and after one is deleted, the stored
  \<open>average_rating\<close> of its course is the arithmetic mean of the course's remaining rating
  rows, and 0 when none remains (the mean as an exact rational).
\<close>

theorem C6_average_rating_is_mean:
  "(\<forall>c \<in> set (courses (rating_save d r)). pk c = Some (r_course r) \<longrightarrow>
      average_rating c =
        arithmetic_mean (map r_rating (filter (\<lambda>x. r_course x = r_course r)
           (ratings (rating_save d r))))) \<and>
   (\<forall>c \<in> set (courses (rating_delete d r)). pk c = Some (r_course r) \<longrightarrow>
      average_rating c =
        arithmetic_mean (map r_rating (filter (\<lambda>x. r_course x = r_course r)
           (ratings (rating_delete d r)))))"
  unfolding rating_save_def rating_delete_def
  using update_course_average_rating_mean by blast

lemma ex_ratings_saved:
  "map pk (courses (rating_save (rating_save ex_db ex_rating3) ex_rating5)) = [Some 1]"
  "ratings (rating_save (rating_save ex_db ex_rating3) ex_rating5) = [ex_rating3, ex_rating5]"
  by (simp_all add: rating_save_def update_course_average_rating_def update_course_rows_def
      ex_db_def ex_course_def ex_rating3_def ex_rating5_def Let_def)

lemma ex_ratings_deleted:
  "map pk (courses (rating_delete (rating_save (rating_save ex_db ex_rating3) ex_rating5)
      ex_rating3)) = [Some 1]"
  "ratings (rating_delete (rating_save (rating_save ex_db ex_rating3) ex_rating5) ex_rating3)
     = [ex_rating5]"
  by (simp_all add: rating_save_def rating_delete_def update_course_average_rating_def
      update_course_rows_def ex_db_def ex_course_def ex_rating3_def ex_rating5_def Let_def)

theorem C6_average_rating_is_mean_witness:
  "map pk (courses (rating_save (rating_save ex_db ex_rating3) ex_rating5)) = [Some 1] \<and>
   list_all (\<lambda>c. average_rating c = 4)
     (courses (rating_save (rating_save ex_db ex_rating3) ex_rating5)) \<and>
   map pk (courses (rating_delete (rating_save (rating_save ex_db ex_rating3) ex_rating5)
      ex_rating3)) = [Some 1] \<and>
   list_all (\<lambda>c. average_rating c = 5)
     (courses (rating_delete (rating_save (rating_save ex_db ex_rating3) ex_rating5)
        ex_rating3))"
proof -
  define d2 where "d2 = rating_save (rating_save ex_db ex_rating3) ex_rating5"
  have pk2: "\<forall>c \<in> set (courses d2). pk c = Some 1"
    using ex_ratings_saved(1) unfolding d2_def [symmetric]
    by (metis (no_types, lifting) in_set_conv_nth length_map nth_map length_Cons list.size(3)
        less_Suc0 nth_Cons_0 One_nat_def)
  have pk3: "\<forall>c \<in> set (courses (rating_delete d2 ex_rating3)). pk c = Some 1"
    using ex_ratings_deleted(1) unfolding d2_def [symmetric]
    by (metis (no_types, lifting) in_set_conv_nth length_map nth_map length_Cons list.size(3)
        less_Suc0 nth_Cons_0 One_nat_def)
  have c5: "r_course ex_rating5 = 1" and c3: "r_course ex_rating3 = 1"
    by (simp_all add: ex_rating5_def ex_rating3_def)
  have a2: "\<forall>c \<in> set (courses d2). average_rating c = 4"
    using C6_average_rating_is_mean [of "rating_save ex_db ex_rating3" ex_rating5] pk2
      ex_ratings_saved(2)
    unfolding d2_def [symmetric]
    by (simp add: c5 ex_rating3_def ex_rating5_def arithmetic_mean_def)
  have a3: "\<forall>c \<in> set (courses (rating_delete d2 ex_rating3)). average_rating c = 5"
    using C6_average_rating_is_mean [of d2 ex_rating3] pk3 ex_ratings_deleted(2)
    unfolding d2_def [symmetric]
    by (simp add: c3 ex_rating3_def ex_rating5_def arithmetic_mean_def)
  show ?thesis
    using a2 a3 ex_ratings_saved(1) ex_ratings_deleted(1)
    unfolding d2_def [symmetric] by (simp add: list_all_iff)
qed

end
